theory Spec2Isabelle
  imports Complex_Main "HOL-Library.Monad_Syntax"
begin

section \<open>The depth-map integration driver (main.cxx)\<close>

text \<open>
  The driver reads its command line into global variables, validates them, loads a list of
  calibrated views from the file system, hands them to the reconstruction filter and writes
  the transformed output grid.

  Conventions of the embedding.
  \<^item> The C++ type \<open>double\<close> is the type variable \<open>'a\<close>. The definitions use only its
    \<open>0\<close>, \<open>1\<close>, \<open>+\<close>, \<open>*\<close> and the comparison with \<open>0\<close>, and the general theorems use
    no law of arithmetic, so they do not depend on how \<open>double\<close> rounds. The sample run
    is evaluated at \<open>real\<close>, on small integers, where \<open>double\<close> is exact.
  \<^item> A \<open>std::vector\<close> is a list. \<open>v[i]\<close> with \<open>i\<close> out of range is undefined behaviour in
    C++; a function that can reach such a subscript returns an \<open>option\<close>, and \<open>None\<close>
    stands for an execution that reached it.
  \<^item> Console output and the calls on the external collaborators (reconstruction filter,
    grid writer) are recorded as a list of events, in the order in which they happen.
  \<^item> The file system, the VTK readers and filters and the number formatting of the
    standard library are not part of main.cxx; they are the fields of an environment
    record.
  \<^item> The fusion engine behind the reconstruction filter belongs to the repository but
    not to the sources. What the specification says about its validation is modelled in
    a subsection of its own, apart from the model of main.cxx.
\<close>

subsection \<open>Data\<close>

text \<open>\<open>vtkMatrix3x3\<close> and \<open>vtkMatrix4x4\<close>: the array \<open>Element[i][j]\<close> as a function of
  the two indices.\<close>

type_synonym 'a vtkMatrix = "nat \<Rightarrow> nat \<Rightarrow> 'a"

definition Identity :: "'a::{zero,one} vtkMatrix" where
  "Identity = (\<lambda>i j. if i = j then 1 else 0)"

definition SetElement :: "'a vtkMatrix \<Rightarrow> nat \<Rightarrow> nat \<Rightarrow> 'a \<Rightarrow> 'a vtkMatrix" where
  "SetElement m i j v = m(i := (m i)(j := v))"

text \<open>Row \<open>i\<close> and column \<open>j\<close> of a 4x4 matrix, as lists.\<close>

definition row4 :: "'a vtkMatrix \<Rightarrow> nat \<Rightarrow> 'a list" where
  "row4 m i = [m i 0, m i 1, m i 2, m i 3]"

definition col4 :: "'a vtkMatrix \<Rightarrow> nat \<Rightarrow> 'a list" where
  "col4 m j = [m 0 j, m 1 j, m 2 j, m 3 j]"

text \<open>The global variables of main.cxx after \<open>arg.Parse()\<close>, together with the two locals of
  \<open>ReadArguments\<close> that the parser fills: its result and the \<open>--help\<close> flag.\<close>

record 'a globals =
  parse_result :: int
  help_flag :: bool
  g_gridDims :: "int list"
  g_gridSpacing :: "'a list"
  g_gridOrigin :: "'a list"
  g_gridVecX :: "'a list"
  g_gridVecY :: "'a list"
  g_gridVecZ :: "'a list"
  g_outputGridFilename :: string
  g_pathFolder :: string
  g_depthMapContainer :: string
  g_KRTContainer :: string
  rayPotentialThick :: 'a
  rayPotentialRho :: 'a
  noCuda :: bool
  verbose :: bool

text \<open>Modelled from the spec: the class \<open>ReconstructionData\<close> (ReconstructionData.h is not
  among the sources). A calibrated view holds a depth map, an intrinsic matrix and a pose
  matrix (\<open>depthMap\<close>, \<open>intrinsic\<close>, \<open>pose\<close>), each unset until its setter is called.\<close>

record ('a, 'i) ReconstructionData =
  depthMap :: "'i option"
  intrinsic :: "'a vtkMatrix option"
  pose :: "'a vtkMatrix option"

definition new_ReconstructionData :: "('a, 'i) ReconstructionData" where
  "new_ReconstructionData = \<lparr>depthMap = None, intrinsic = None, pose = None\<rparr>"

definition SetDepthMap :: "'i \<Rightarrow> ('a, 'i) ReconstructionData \<Rightarrow> ('a, 'i) ReconstructionData" where
  "SetDepthMap d data = data\<lparr>depthMap := Some d\<rparr>"

definition SetMatrixK ::
  "'a vtkMatrix \<Rightarrow> ('a, 'i) ReconstructionData \<Rightarrow> ('a, 'i) ReconstructionData" where
  "SetMatrixK k data = data\<lparr>intrinsic := Some k\<rparr>"

definition SetMatrixTR ::
  "'a vtkMatrix \<Rightarrow> ('a, 'i) ReconstructionData \<Rightarrow> ('a, 'i) ReconstructionData" where
  "SetMatrixTR t data = data\<lparr>pose := Some t\<rparr>"

text \<open>The input grid (\<open>vtkImageData\<close>) that main builds, and the state of the reconstruction
  filter at the moment main calls \<open>Update\<close>: every value main has set on it.\<close>

record 'a vtkImageData =
  Dimensions :: "int \<times> int \<times> int"
  Spacing :: "'a \<times> 'a \<times> 'a"
  Origin :: "'a \<times> 'a \<times> 'a"

record ('a, 'i) vtkCudaReconstructionFilter =
  UseCuda :: bool
  RayPotentialRho :: 'a
  RayPotentialThickness :: 'a
  InputData :: "'a vtkImageData"
  DataList :: "('a, 'i) ReconstructionData list"
  GridMatrix :: "'a vtkMatrix"

text \<open>What a run does to the outside world.\<close>

datatype ('a, 'i, 'g) event =
    is_Cout: Cout string
  | is_Cerr: Cerr string
  | is_FilterUpdate: FilterUpdate "('a, 'i) vtkCudaReconstructionFilter"
  | is_GridWrite: GridWrite string 'g

text \<open>Everything main.cxx uses and does not define.
  \<^item> \<open>files p\<close>: the text of the file named \<open>p\<close>, or \<open>None\<close> when an \<open>ifstream\<close> on it does
    not open.
  \<^item> \<open>extract_double line j\<close>: the content of the variable \<open>value\<close> after the \<open>(j+1)\<close>-th
    \<open>iss >> value\<close> on a fresh \<open>istringstream\<close> over \<open>line\<close> (whatever the variable holds
    when the extraction fails).
  \<^item> \<open>ImageDataReader p\<close>: the output of a \<open>vtkXMLImageDataReader\<close> on file \<open>p\<close>.
  \<^item> \<open>to_string_double\<close>, \<open>to_string_size\<close>: \<open>std::to_string\<close>.
  \<^item> \<open>GetHelp\<close>: the help text of the argument parser.
  \<^item> \<open>GetExecutionTime\<close>, \<open>GetOutput\<close>: what the reconstruction filter reports and
    produces for the state it was updated in.
  \<^item> \<open>TransformFilter m out\<close>: the output of the \<open>vtkTransformFilter\<close> for matrix \<open>m\<close>.\<close>

record ('a, 'i, 'g) environment =
  files :: "string \<Rightarrow> string option"
  extract_double :: "string \<Rightarrow> nat \<Rightarrow> 'a"
  ImageDataReader :: "string \<Rightarrow> 'i"
  to_string_double :: "'a \<Rightarrow> string"
  to_string_size :: "nat \<Rightarrow> string"
  GetHelp :: string
  GetExecutionTime :: "('a, 'i) vtkCudaReconstructionFilter \<Rightarrow> 'a"
  GetOutput :: "('a, 'i) vtkCudaReconstructionFilter \<Rightarrow> 'g"
  TransformFilter :: "'a vtkMatrix \<Rightarrow> 'g \<Rightarrow> 'g"

definition EXIT_SUCCESS :: int where
  "EXIT_SUCCESS = 0"

definition EXIT_FAILURE :: int where
  "EXIT_FAILURE = 1"

definition endl :: string where
  "endl = [CHR 0x0A]"

text \<open>The path separator \<open>"\\"\<close> of the source: one backslash.\<close>

definition backslash :: string where
  "backslash = [CHR 0x5C]"

subsection \<open>Vectors and arrays\<close>

text \<open>\<open>v[i]\<close> on a \<open>std::vector\<close>.\<close>

definition subscript :: "'b list \<Rightarrow> nat \<Rightarrow> 'b option" where
  "subscript v i = (if i < length v then Some (v ! i) else None)"

text \<open>\<open>{ v[0], v[1], v[2] }\<close>, and likewise the three values a VTK setter reads through
  \<open>&v[0]\<close>.\<close>

definition array3 :: "'b list \<Rightarrow> ('b \<times> 'b \<times> 'b) option" where
  "array3 v = do {
     a \<leftarrow> subscript v 0;
     b \<leftarrow> subscript v 1;
     c \<leftarrow> subscript v 2;
     Some (a, b, c)
   }"

text \<open>\<open>elems[elems.size() - 1]\<close>: on an empty vector the unsigned index wraps around and
  is out of range.\<close>

definition subscript_last :: "'b list \<Rightarrow> 'b option" where
  "subscript_last elems =
     (if length elems = 0 then None else subscript elems (length elems - 1))"

text \<open>\<open>vtkMath::Dot\<close> on two \<open>double[3]\<close>.\<close>

fun Dot :: "'a::{plus,times} \<times> 'a \<times> 'a \<Rightarrow> 'a \<times> 'a \<times> 'a \<Rightarrow> 'a" where
  "Dot (a0, a1, a2) (b0, b1, b2) = a0 * b0 + a1 * b1 + a2 * b2"

subsection \<open>ShowInformation\<close>

text \<open>The events of one call: the message and two line ends on \<open>std::cout\<close> in verbose mode,
  nothing otherwise.\<close>

definition ShowInformation :: "'a globals \<Rightarrow> string \<Rightarrow> ('a, 'i, 'g) event list" where
  "ShowInformation g information =
     (if verbose g then [Cout (information @ endl @ endl)] else [])"

subsection \<open>AreVectorsOrthogonal and ReadArguments\<close>

definition AreVectorsOrthogonal :: "'a::{zero,plus,times} globals \<Rightarrow> bool option" where
  "AreVectorsOrthogonal g = do {
     X \<leftarrow> array3 (g_gridVecX g);
     Y \<leftarrow> array3 (g_gridVecY g);
     Z \<leftarrow> array3 (g_gridVecZ g);
     let XY = Dot X Y;
     let YZ = Dot Y Z;
     let ZX = Dot Z X;
     if XY = 0 \<and> YZ = 0 \<and> ZX = 0 then Some True else Some False
   }"

text \<open>The result of \<open>ReadArguments\<close> and the events it emits, after the parser has run.\<close>

definition ReadArguments ::
  "('a::{zero,plus,times}, 'i, 'g) environment \<Rightarrow> 'a globals
     \<Rightarrow> (bool \<times> ('a, 'i, 'g) event list) option" where
  "ReadArguments env g =
     (if parse_result g = 0 \<or> help_flag g then Some (False, [Cout (GetHelp env)])
      else if g_outputGridFilename g = [] \<or> g_depthMapContainer g = [] \<or> g_KRTContainer g = []
      then Some (False, [Cerr (''Error arguments.'' @ endl), Cerr (GetHelp env)])
      else do {
        orthogonal \<leftarrow> AreVectorsOrthogonal g;
        if \<not> orthogonal
        then Some (False, [Cerr (''Given vectors are not orthogonals'' @ endl)])
        else Some (True, [])
      })"

subsection \<open>CreateGridMatrixFromInput\<close>

definition CreateGridMatrixFromInput ::
  "('a::{zero,one}, 'i, 'g) environment \<Rightarrow> 'a globals
     \<Rightarrow> ('a vtkMatrix \<times> ('a, 'i, 'g) event list) option" where
  "CreateGridMatrixFromInput env g = do {
     let gridMatrix = Identity;
     x0 \<leftarrow> subscript (g_gridVecX g) 0;
     let gridMatrix = SetElement gridMatrix 0 0 x0;
     x1 \<leftarrow> subscript (g_gridVecX g) 1;
     let gridMatrix = SetElement gridMatrix 0 1 x1;
     x2 \<leftarrow> subscript (g_gridVecX g) 2;
     let gridMatrix = SetElement gridMatrix 0 2 x2;
     y0 \<leftarrow> subscript (g_gridVecY g) 0;
     let gridMatrix = SetElement gridMatrix 1 0 y0;
     y1 \<leftarrow> subscript (g_gridVecY g) 1;
     let gridMatrix = SetElement gridMatrix 1 1 y1;
     y2 \<leftarrow> subscript (g_gridVecY g) 2;
     let gridMatrix = SetElement gridMatrix 1 2 y2;
     z0 \<leftarrow> subscript (g_gridVecZ g) 0;
     let gridMatrix = SetElement gridMatrix 2 0 z0;
     z1 \<leftarrow> subscript (g_gridVecZ g) 1;
     let gridMatrix = SetElement gridMatrix 2 1 z1;
     z2 \<leftarrow> subscript (g_gridVecZ g) 2;
     let gridMatrix = SetElement gridMatrix 2 2 z2;
     let str = to_string_double env;
     let l1 = str x0 @ ''  '' @ str y0 @ ''  '' @ str z0 @ endl;
     let l2 = str x1 @ ''  '' @ str y1 @ ''  '' @ str z1 @ endl;
     let l3 = str x2 @ ''  '' @ str y2 @ ''  '' @ str z2 @ endl;
     let info = ''Reconstruct grid matrix : '' @ endl @ l1 @ l2 @ l3;
     Some (gridMatrix, ShowInformation g info)
   }"

subsection \<open>Input streams\<close>

text \<open>An input stream that is only read with \<open>std::getline\<close>: the characters not yet
  extracted and the \<open>eofbit\<close>. \<open>getline\<close> sets the \<open>failbit\<close> only on a stream whose
  \<open>eofbit\<close> it sets or finds set, and on a stream with \<open>eofbit\<close> set it extracts nothing
  whether the \<open>failbit\<close> is set or not. So the \<open>failbit\<close> is not a field; the third
  component of the result of \<open>getline\<close> tells whether the stream converts to \<open>true\<close>
  after the call.\<close>

record istream =
  buf :: string
  eofbit :: bool

definition open_stream :: "string \<Rightarrow> istream" where
  "open_stream s = \<lparr>buf = s, eofbit = False\<rparr>"

text \<open>\<open>std::getline(is, str, delim)\<close>. On a stream that is not good the string is left as
  it is. Otherwise the string is replaced by the characters up to the delimiter, which is
  extracted and dropped; when the input ends first, \<open>eofbit\<close> is set, and \<open>failbit\<close> too
  when nothing was extracted.\<close>

definition getline :: "istream \<Rightarrow> string \<Rightarrow> char \<Rightarrow> istream \<times> string \<times> bool" where
  "getline is str delim =
     (if eofbit is then (is, str, False)
      else case dropWhile (\<lambda>c. c \<noteq> delim) (buf is) of
             [] \<Rightarrow> (is\<lparr>buf := [], eofbit := True\<rparr>, buf is, buf is \<noteq> [])
           | d # rest \<Rightarrow> (is\<lparr>buf := rest\<rparr>, takeWhile (\<lambda>c. c \<noteq> delim) (buf is), True))"

text \<open>What bounds the number of calls of \<open>getline\<close> that can still extract.\<close>

definition remaining :: "istream \<Rightarrow> nat" where
  "remaining is = (if eofbit is then 0 else Suc (length (buf is)))"

subsection \<open>SplitString\<close>

function SplitString_loop :: "istream \<Rightarrow> string \<Rightarrow> char \<Rightarrow> string list \<Rightarrow> string list" where
  "SplitString_loop ss item delim elems =
     (case getline ss item delim of
        (ss', item', ok) \<Rightarrow>
          if ok then SplitString_loop ss' item' delim (elems @ [item']) else elems)"
  by pat_completeness auto
termination
proof (relation "measure (\<lambda>(ss, item, delim, elems). remaining ss)", goal_cases)
  case 1
  show ?case by simp
next
  case (2 ss item delim elems ss' y item' ok)
  have "length (dropWhile (\<lambda>c. c \<noteq> delim) (buf ss)) \<le> length (buf ss)"
    by (rule length_dropWhile_le)
  with 2 show ?case
    by (auto simp: getline_def remaining_def split: if_splits list.splits)
qed

definition SplitString :: "string \<Rightarrow> char \<Rightarrow> string list \<Rightarrow> string list" where
  "SplitString s delim elems = SplitString_loop (open_stream s) [] delim elems"

subsection \<open>ReadKrtdFile\<close>

text \<open>The body of \<open>for (int j = 0; j < 3; j++)\<close>: the values extracted from one line go
  to row \<open>i\<close> of the matrix.\<close>

definition read_row :: "('a, 'i, 'g) environment \<Rightarrow> string \<Rightarrow> nat \<Rightarrow> 'a vtkMatrix \<Rightarrow> 'a vtkMatrix" where
  "read_row env line i m = fold (\<lambda>j m. SetElement m i j (extract_double env line j)) [0..<3] m"

text \<open>\<open>for (int i = 0; i < 3; i++)\<close>: three lines, three rows.\<close>

definition read_rows ::
  "('a, 'i, 'g) environment \<Rightarrow> istream \<times> string \<times> 'a vtkMatrix \<Rightarrow> istream \<times> string \<times> 'a vtkMatrix" where
  "read_rows env =
     fold (\<lambda>i (file, line, m).
             case getline file line CHR 0x0A of
               (file', line', ok) \<Rightarrow> (file', line', read_row env line' i m))
          [0..<3]"

text \<open>The result, the two matrices behind the pointers after the call, and the events.\<close>

definition ReadKrtdFile ::
  "('a::{zero,one}, 'i, 'g) environment \<Rightarrow> string \<Rightarrow> 'a vtkMatrix \<Rightarrow> 'a vtkMatrix
     \<Rightarrow> bool \<times> 'a vtkMatrix \<times> 'a vtkMatrix \<times> ('a, 'i, 'g) event list" where
  "ReadKrtdFile env filename matrixK matrixTR =
     (case files env filename of
        None \<Rightarrow>
          (False, matrixK, matrixTR, [Cerr (''Unable to open krtd file : '' @ filename @ endl)])
      | Some text \<Rightarrow>
          (case read_rows env (open_stream text, [], matrixK) of
             (file, line, matrixK) \<Rightarrow>
          (case getline file line CHR 0x0A of
             (file, line, ok) \<Rightarrow>
          (case read_rows env (file, line, matrixTR) of
             (file, line, matrixTR) \<Rightarrow>
          (case getline file line CHR 0x0A of
             (file, line, ok) \<Rightarrow>
          (case getline file line CHR 0x0A of
             (file, line, ok) \<Rightarrow>
          let matrixTR = fold (\<lambda>i m. SetElement m i 3 (extract_double env line i)) [0..<3] matrixTR;
              matrixTR = fold (\<lambda>j m. SetElement m 3 j 0) [0..<4] matrixTR;
              matrixTR = SetElement matrixTR 3 3 1
          in (True, matrixK, matrixTR, [])))))))"

subsection \<open>CreateReconstructionData\<close>

text \<open>The variables of the loop \<open>while (!depthMapContainer.eof())\<close>, and the events of
  the loop so far.\<close>

record ('a, 'i, 'g) loader =
  depthMapContainer :: istream
  matrixContainer :: istream
  depthMapPath :: string
  matrixPath :: string
  g_dataList :: "('a, 'i) ReconstructionData list"
  events :: "('a, 'i, 'g) event list"

text \<open>The part of the loop body after the line of the depth-map container has been read.\<close>

definition load_view ::
  "('a::{zero,one}, 'i, 'g) environment \<Rightarrow> 'a globals \<Rightarrow> ('a, 'i, 'g) loader
     \<Rightarrow> ('a, 'i, 'g) loader option" where
  "load_view env g s =
     (let elems = SplitString (depthMapPath s) CHR ''/'' []
      in if length elems = 0 then Some s
         else do {
           name \<leftarrow> subscript_last elems;
           let s = s\<lparr>depthMapPath := g_pathFolder g @ backslash @ name\<rparr>;
           let depthMapReader = ImageDataReader env (depthMapPath s);
           let (mc, mp, ok) = getline (matrixContainer s) (matrixPath s) CHR 0x0A;
           let s = s\<lparr>matrixContainer := mc, matrixPath := mp\<rparr>;
           let elems = SplitString (matrixPath s) CHR ''/'' [];
           name \<leftarrow> subscript_last elems;
           let s = s\<lparr>matrixPath := g_pathFolder g @ backslash @ name\<rparr>;
           let (isReadOk, depthMapMatrixK, depthMapMatrixTR, out) =
                 ReadKrtdFile env (matrixPath s) Identity Identity;
           let s = s\<lparr>events := events s @ out\<rparr>;
           if \<not> isReadOk then Some s
           else do {
             let data = new_ReconstructionData;
             let data = SetDepthMap depthMapReader data;
             let data = SetMatrixK depthMapMatrixK data;
             let data = SetMatrixTR depthMapMatrixTR data;
             Some (s\<lparr>g_dataList := g_dataList s @ [data]\<rparr>)
           }
         })"

function load_loop ::
  "('a::{zero,one}, 'i, 'g) environment \<Rightarrow> 'a globals \<Rightarrow> ('a, 'i, 'g) loader
     \<Rightarrow> ('a, 'i, 'g) loader option" where
  "load_loop env g s =
     (if eofbit (depthMapContainer s) then Some s
      else case getline (depthMapContainer s) (depthMapPath s) CHR 0x0A of
             (dmc, dmp, ok) \<Rightarrow>
               (case load_view env g (s\<lparr>depthMapContainer := dmc, depthMapPath := dmp\<rparr>) of
                  None \<Rightarrow> None
                | Some s' \<Rightarrow> load_loop env g s'))"
  by pat_completeness auto

termination
proof (relation "measure (\<lambda>(env, g, s). remaining (depthMapContainer s))", goal_cases)
  case 1
  show ?case by simp
next
  case (2 env g s dmc y dmp ok s')
  let ?in = "depthMapContainer s"
  have "length (dropWhile (\<lambda>c. c \<noteq> CHR 0x0A) (buf ?in)) \<le> length (buf ?in)"
    by (rule length_dropWhile_le)
  with 2 have less: "remaining dmc < remaining ?in"
    by (auto simp: getline_def remaining_def split: if_splits list.splits)
  from 2 have "depthMapContainer s' = dmc"
    by (auto simp: load_view_def Let_def split: if_splits prod.splits Option.bind_splits)
  with less show ?case
    by simp
qed

declare SplitString_loop.simps [simp del]

declare load_loop.simps [simp del]

text \<open>The result, the list \<open>g_dataList\<close> after the call, and the events.\<close>

definition CreateReconstructionData ::
  "('a::{zero,one}, 'i, 'g) environment \<Rightarrow> 'a globals
     \<Rightarrow> (bool \<times> ('a, 'i) ReconstructionData list \<times> ('a, 'i, 'g) event list) option" where
  "CreateReconstructionData env g =
     (let out = ShowInformation g ''Read depth map and matrix files...'';
          dmapGlobalFile = g_pathFolder g @ backslash @ g_depthMapContainer g;
          krtGlobalFile = g_pathFolder g @ backslash @ g_KRTContainer g
      in case (files env dmapGlobalFile, files env krtGlobalFile) of
           (Some dmapText, Some krtText) \<Rightarrow> do {
             s \<leftarrow> load_loop env g
                   \<lparr>depthMapContainer = open_stream dmapText,
                    matrixContainer = open_stream krtText,
                    depthMapPath = [], matrixPath = [], g_dataList = [], events = []\<rparr>;
             let out = out @ events s;
             if length (g_dataList s) = 0 then Some (False, g_dataList s, out)
             else do {
               let info = to_string_size env (length (g_dataList s))
                            @ '' depth map have been loaded.'';
               Some (True, g_dataList s, out @ ShowInformation g info)
             }
           }
         | _ \<Rightarrow>
             Some (False, [],
               out @ [Cerr (''Unable to open file which contains depth map or matrix path.''
                            @ endl)]))"

subsection \<open>main\<close>

text \<open>The exit code and the events of a run.\<close>

definition main ::
  "('a::{zero,one,plus,times}, 'i, 'g) environment \<Rightarrow> 'a globals
     \<Rightarrow> (int \<times> ('a, 'i, 'g) event list) option" where
  "main env g = do {
     (argsOk, out) \<leftarrow> ReadArguments env g;
     if \<not> argsOk then Some (EXIT_FAILURE, out)
     else do {
       let out = out @ ShowInformation g ''---START---'';
       (dataOk, dataList, out') \<leftarrow> CreateReconstructionData env g;
       let out = out @ out';
       if \<not> dataOk
       then Some (EXIT_FAILURE,
                  out @ [Cerr (''Error during ReconstructionData construction'' @ endl)])
       else do {
         (gridMatrix, out') \<leftarrow> CreateGridMatrixFromInput env g;
         let out = out @ out';
         dims \<leftarrow> array3 (g_gridDims g);
         spacing \<leftarrow> array3 (g_gridSpacing g);
         origin \<leftarrow> array3 (g_gridOrigin g);
         let grid = \<lparr>Dimensions = dims, Spacing = spacing, Origin = origin\<rparr>;
         let out = out @ ShowInformation g ''** Launch reconstruction...'';
         let cudaReconstructionFilter =
               \<lparr>UseCuda = \<not> noCuda g,
                RayPotentialRho = rayPotentialRho g,
                RayPotentialThickness = rayPotentialThick g,
                InputData = grid,
                DataList = dataList,
                GridMatrix = gridMatrix\<rparr>;
         let out = out @ [FilterUpdate cudaReconstructionFilter];
         let time = GetExecutionTime env cudaReconstructionFilter;
         let message = ''Execution time : '' @ to_string_double env time @ '' s'';
         let out = out @ ShowInformation g message;
         let out = out @ ShowInformation g ''** Apply grid matrix to the reconstruction output...'';
         let outputGrid = TransformFilter env gridMatrix (GetOutput env cudaReconstructionFilter);
         let out = out @ ShowInformation g ''** Save output...'';
         let out = out @ [GridWrite (g_outputGridFilename g) outputGrid];
         let out = out @ ShowInformation g ''---END---'';
         Some (EXIT_SUCCESS, out)
       }
     }
   }"

subsection \<open>Observations on a run\<close>

text \<open>The states in which the reconstruction filter was updated, the files handed to the
  grid writer, and the events other than output on \<open>std::cout\<close>.\<close>

primrec filter_calls :: "('a, 'i, 'g) event list \<Rightarrow> ('a, 'i) vtkCudaReconstructionFilter list" where
  "filter_calls [] = []"
| "filter_calls (e # es) =
     (case e of FilterUpdate f \<Rightarrow> f # filter_calls es | _ \<Rightarrow> filter_calls es)"

primrec grid_writes :: "('a, 'i, 'g) event list \<Rightarrow> (string \<times> 'g) list" where
  "grid_writes [] = []"
| "grid_writes (e # es) =
     (case e of GridWrite name grid \<Rightarrow> (name, grid) # grid_writes es | _ \<Rightarrow> grid_writes es)"

definition quiet :: "('a, 'i, 'g) event list \<Rightarrow> ('a, 'i, 'g) event list" where
  "quiet out = filter (\<lambda>e. \<not> is_Cout e) out"

text \<open>What a run shows apart from \<open>std::cout\<close>: its exit code and its other events.\<close>

definition observable ::
  "(int \<times> ('a, 'i, 'g) event list) option \<Rightarrow> (int \<times> ('a, 'i, 'g) event list) option" where
  "observable r = map_option (\<lambda>(code, out). (code, quiet out)) r"

text \<open>A view with its depth map and both matrices set.\<close>

definition complete :: "('a, 'i) ReconstructionData \<Rightarrow> bool" where
  "complete d \<longleftrightarrow> depthMap d \<noteq> None \<and> intrinsic d \<noteq> None \<and> pose d \<noteq> None"

subsection \<open>The fusion engine\<close>

text \<open>Modelled from the spec: the fusion engine behind \<open>vtkCudaReconstructionFilter\<close>,
  whose source is not among the sources; main.cxx only sets its parameters and calls
  \<open>Update\<close>. Section 6 of the specification gives its two operations.
  \<^item> \<open>configure(thickness, rho, useParallel)\<close> fails with \<open>InvalidParameter\<close> if either
    value is \<open>\<le> 0\<close>.
  \<^item> \<open>run(grid, views)\<close> fails with \<open>InvalidGeometry\<close> if the grid's basis is
    non-orthogonal, with \<open>NoEvidence\<close> if \<open>views\<close> is empty, and with \<open>InvalidView\<close> if any
    view is missing its depth map or either matrix.

  Section 7: all four errors are detected before any voxel work begins. The voxel work
  itself (section 4.3, steps 1 to 3, the only place where the ray potential is evaluated)
  is the parameter \<open>voxel_work\<close>. \<open>Update\<close> is the engine on the state of the filter as
  main has set it: the three values of \<open>configure\<close>, then \<open>run\<close> on the input grid, the
  grid matrix and the data list.\<close>

datatype engine_error = InvalidParameter | InvalidGeometry | InvalidView | NoEvidence

record 'a ray_potential_parameters =
  thickness :: 'a
  rho :: 'a
  useParallel :: bool

definition configure ::
  "'a::{zero,ord} \<Rightarrow> 'a \<Rightarrow> bool \<Rightarrow> engine_error + 'a ray_potential_parameters" where
  "configure t r par =
     (if t \<le> 0 \<or> r \<le> 0 then Inl InvalidParameter
      else Inr \<lparr>thickness = t, rho = r, useParallel = par\<rparr>)"

text \<open>The basis is the three direction vectors, which are the rows of the grid matrix.\<close>

definition basis_orthogonal :: "'a::{zero,plus,times} vtkMatrix \<Rightarrow> bool" where
  "basis_orthogonal m \<longleftrightarrow>
     Dot (m 0 0, m 0 1, m 0 2) (m 1 0, m 1 1, m 1 2) = 0 \<and>
     Dot (m 1 0, m 1 1, m 1 2) (m 2 0, m 2 1, m 2 2) = 0 \<and>
     Dot (m 2 0, m 2 1, m 2 2) (m 0 0, m 0 1, m 0 2) = 0"

definition run ::
  "('a ray_potential_parameters \<Rightarrow> 'a vtkImageData \<Rightarrow> 'a vtkMatrix
      \<Rightarrow> ('a, 'i) ReconstructionData list \<Rightarrow> 'r)
     \<Rightarrow> 'a::{zero,plus,times} ray_potential_parameters \<Rightarrow> 'a vtkImageData \<Rightarrow> 'a vtkMatrix
     \<Rightarrow> ('a, 'i) ReconstructionData list \<Rightarrow> engine_error + 'r" where
  "run voxel_work p grid basis views =
     (if \<not> basis_orthogonal basis then Inl InvalidGeometry
      else if views = [] then Inl NoEvidence
      else if \<not> list_all complete views then Inl InvalidView
      else Inr (voxel_work p grid basis views))"

definition Update ::
  "('a ray_potential_parameters \<Rightarrow> 'a vtkImageData \<Rightarrow> 'a vtkMatrix
      \<Rightarrow> ('a, 'i) ReconstructionData list \<Rightarrow> 'r)
     \<Rightarrow> ('a::{zero,plus,times,ord}, 'i) vtkCudaReconstructionFilter \<Rightarrow> engine_error + 'r" where
  "Update voxel_work f =
     (case configure (RayPotentialThickness f) (RayPotentialRho f) (UseCuda f) of
        Inl e \<Rightarrow> Inl e
      | Inr p \<Rightarrow> run voxel_work p (InputData f) (GridMatrix f) (DataList f))"

subsection \<open>A sample run\<close>

text \<open>A data folder with one view: the two container files name one depth map and one
  calibration file, which holds an identity \<open>K\<close>, an identity rotation and the translation
  \<open>(0, 0, 5)\<close>. \<open>example_numbers\<close> lists the numbers on the lines that occur in it. The
  globals are those of the command line in the comment above \<open>main\<close>, with unit spacing
  and short file names.\<close>

definition example_numbers :: "string \<Rightarrow> real list" where
  "example_numbers line =
     (case map_of [(''1 0 0'', [1, 0, 0]), (''0 1 0'', [0, 1, 0]), (''0 0 1'', [0, 0, 1]),
                   (''0 0 5'', [0, 0, 5])] line of
        Some v \<Rightarrow> v | None \<Rightarrow> [])"

definition example_files :: "string \<Rightarrow> string option" where
  "example_files =
     [''data'' @ backslash @ ''vtiList.txt'' \<mapsto> ''maps/view0.vti'' @ endl,
      ''data'' @ backslash @ ''kList.txt'' \<mapsto> ''krtd/view0.krtd'' @ endl,
      ''data'' @ backslash @ ''view0.krtd'' \<mapsto>
        ''1 0 0'' @ endl @ ''0 1 0'' @ endl @ ''0 0 1'' @ endl @ endl @
        ''1 0 0'' @ endl @ ''0 1 0'' @ endl @ ''0 0 1'' @ endl @ endl @ ''0 0 5'' @ endl]"

definition example_env :: "(real, string, unit) environment" where
  "example_env =
     \<lparr>files = example_files,
      extract_double = (\<lambda>line j. if j < length (example_numbers line)
                                  then example_numbers line ! j else 0),
      ImageDataReader = (\<lambda>name. name),
      to_string_double = (\<lambda>x. ''?''),
      to_string_size = (\<lambda>n. ''?''),
      GetHelp = ''usage'',
      GetExecutionTime = (\<lambda>f. 0),
      GetOutput = (\<lambda>f. ()),
      TransformFilter = (\<lambda>m out. out)\<rparr>"

definition example_globals :: "real globals" where
  "example_globals =
     \<lparr>parse_result = 1, help_flag = False,
      g_gridDims = [100, 100, 100], g_gridSpacing = [1, 1, 1], g_gridOrigin = [-5, -5, -5],
      g_gridVecX = [1, 0, 0], g_gridVecY = [0, 1, 0], g_gridVecZ = [0, 0, 1],
      g_outputGridFilename = ''output.vts'', g_pathFolder = ''data'',
      g_depthMapContainer = ''vtiList.txt'', g_KRTContainer = ''kList.txt'',
      rayPotentialThick = 2, rayPotentialRho = 3, noCuda = False, verbose = False\<rparr>"

section \<open>Properties\<close>

subsection \<open>Events\<close>

lemma filter_calls_append: "filter_calls (xs @ ys) = filter_calls xs @ filter_calls ys"
  by (induction xs) (auto split: event.splits)

lemma grid_writes_append: "grid_writes (xs @ ys) = grid_writes xs @ grid_writes ys"
  by (induction xs) (auto split: event.splits)

lemma quiet_append: "quiet (xs @ ys) = quiet xs @ quiet ys"
  by (simp add: quiet_def)

lemma ShowInformation_silent:
  "filter_calls (ShowInformation g m) = []"
  "grid_writes (ShowInformation g m) = []"
  "quiet (ShowInformation g m) = []"
  by (simp_all add: ShowInformation_def quiet_def)

subsection \<open>Vectors and argument validation\<close>

lemma array3_eq: "array3 v = (if 3 \<le> length v then Some (v ! 0, v ! 1, v ! 2) else None)"
  by (auto simp: array3_def subscript_def)

lemma AreVectorsOrthogonal_None:
  "AreVectorsOrthogonal g = None \<longleftrightarrow>
     length (g_gridVecX g) < 3 \<or> length (g_gridVecY g) < 3 \<or> length (g_gridVecZ g) < 3"
  by (auto simp: AreVectorsOrthogonal_def array3_eq Let_def)

lemma AreVectorsOrthogonal_Some:
  assumes "3 \<le> length (g_gridVecX g)" "3 \<le> length (g_gridVecY g)" "3 \<le> length (g_gridVecZ g)"
  shows "AreVectorsOrthogonal g =
     Some (Dot (g_gridVecX g ! 0, g_gridVecX g ! 1, g_gridVecX g ! 2)
               (g_gridVecY g ! 0, g_gridVecY g ! 1, g_gridVecY g ! 2) = 0 \<and>
           Dot (g_gridVecY g ! 0, g_gridVecY g ! 1, g_gridVecY g ! 2)
               (g_gridVecZ g ! 0, g_gridVecZ g ! 1, g_gridVecZ g ! 2) = 0 \<and>
           Dot (g_gridVecZ g ! 0, g_gridVecZ g ! 1, g_gridVecZ g ! 2)
               (g_gridVecX g ! 0, g_gridVecX g ! 1, g_gridVecX g ! 2) = 0)"
  using assms by (simp add: AreVectorsOrthogonal_def array3_eq Let_def del: Dot.simps)

lemma ReadArguments_silent:
  assumes "ReadArguments env g = Some (ok, out)"
  shows "filter_calls out = [] \<and> grid_writes out = []"
  using assms by (auto simp: ReadArguments_def split: if_splits Option.bind_splits)

lemma ReadArguments_verbose:
  "ReadArguments env (g\<lparr>verbose := v\<rparr>) = ReadArguments env g"
  by (simp add: ReadArguments_def AreVectorsOrthogonal_def)

subsection \<open>Reading a calibration file\<close>

lemma upt_0_3: "[0..<3] = [0, 1, 2]"
  by (simp add: upt_rec)

lemma upt_0_4: "[0..<4] = [0, 1, 2, 3]"
  by (simp add: upt_rec)

lemma ReadKrtdFile_result:
  "fst (ReadKrtdFile env filename matrixK matrixTR) \<longleftrightarrow> files env filename \<noteq> None"
  by (auto simp: ReadKrtdFile_def Let_def split: option.splits prod.splits)

lemma ReadKrtdFile_events:
  "ReadKrtdFile env filename matrixK matrixTR = (ok, K, TR, out) \<Longrightarrow>
     filter_calls out = [] \<and> grid_writes out = []"
  by (auto simp: ReadKrtdFile_def Let_def split: option.splits prod.splits)

lemma ReadKrtdFile_bottom_row:
  "ReadKrtdFile env filename matrixK matrixTR = (True, K, TR, out) \<Longrightarrow>
     row4 TR 3 = [0, 0, 0, 1]"
  by (auto simp: ReadKrtdFile_def Let_def row4_def SetElement_def upt_0_4
           split: option.splits prod.splits)

subsection \<open>The loading loop\<close>

text \<open>A property that the loop body preserves holds when the loop ends.\<close>

lemma load_loop_invariant:
  assumes "load_loop env g s = Some t"
    and "I s"
    and "\<And>s dmc dmp. I s \<Longrightarrow> I (s\<lparr>depthMapContainer := dmc, depthMapPath := dmp\<rparr>)"
    and "\<And>s s'. I s \<Longrightarrow> load_view env g s = Some s' \<Longrightarrow> I s'"
  shows "I t"
  using assms
proof (induction env g s rule: load_loop.induct)
  case (1 env g s)
  show ?case
  proof (cases "eofbit (depthMapContainer s)")
    case True
    with "1.prems"(1,2) show ?thesis by (simp add: load_loop.simps [of env g s])
  next
    case False
    obtain dmc dmp ok where gl: "getline (depthMapContainer s) (depthMapPath s) CHR 0x0A = (dmc, dmp, ok)"
      by (cases "getline (depthMapContainer s) (depthMapPath s) CHR 0x0A") auto
    let ?s1 = "s\<lparr>depthMapContainer := dmc, depthMapPath := dmp\<rparr>"
    from "1.prems"(1) False gl obtain s' where lv: "load_view env g ?s1 = Some s'"
      and rest: "load_loop env g s' = Some t"
      by (auto simp: load_loop.simps [of env g s] split: option.splits)
    have "I ?s1" using "1.prems"(2) by (rule "1.prems"(3))
    then have "I s'" using lv by (rule "1.prems"(4))
    show ?thesis
      by (rule "1.IH" [OF False gl [symmetric] refl lv rest \<open>I s'\<close> "1.prems"(3,4)])
  qed
qed


lemma load_view_events:
  assumes "load_view env g s = Some s'"
  shows "filter_calls (events s') = filter_calls (events s) \<and>
         grid_writes (events s') = grid_writes (events s)"
  using assms
  by (auto simp: load_view_def Let_def filter_calls_append grid_writes_append
           dest: ReadKrtdFile_events split: if_splits prod.splits Option.bind_splits)

lemma load_view_dataList:
  assumes "load_view env g s = Some s'"
  shows "g_dataList s' = g_dataList s \<or>
         (\<exists>d. g_dataList s' = g_dataList s @ [d] \<and> complete d \<and>
              files env (matrixPath s') \<noteq> None)"
  using assms ReadKrtdFile_result [of env "matrixPath s'" Identity Identity]
  by (auto simp: load_view_def Let_def complete_def new_ReconstructionData_def
                 SetDepthMap_def SetMatrixK_def SetMatrixTR_def
           split: if_splits prod.splits Option.bind_splits)

lemma load_view_skips:
  assumes "load_view env g s = Some s'" and "files env (matrixPath s') = None"
  shows "g_dataList s' = g_dataList s"
  using load_view_dataList [OF assms(1)] assms(2) by auto

text \<open>The loop uses the globals only through \<open>g_pathFolder\<close>.\<close>

lemma load_view_pathFolder:
  "g_pathFolder g' = g_pathFolder g \<Longrightarrow> load_view env g' s = load_view env g s"
  by (simp add: load_view_def cong: if_cong)

lemma load_loop_pathFolder:
  assumes "g_pathFolder g' = g_pathFolder g"
  shows "load_loop env g' s = load_loop env g s"
  using assms
proof (induction env g s rule: load_loop.induct)
  case (1 env g s)
  note same = load_view_pathFolder [OF "1.prems", of env]
  show ?case
  proof (cases "eofbit (depthMapContainer s)")
    case True
    then show ?thesis
      by (simp add: load_loop.simps [of env _ s])
  next
    case False
    obtain dmc dmp ok where
      gl: "getline (depthMapContainer s) (depthMapPath s) CHR 0x0A = (dmc, dmp, ok)"
      by (cases "getline (depthMapContainer s) (depthMapPath s) CHR 0x0A") auto
    let ?s1 = "s\<lparr>depthMapContainer := dmc, depthMapPath := dmp\<rparr>"
    show ?thesis
    proof (cases "load_view env g ?s1")
      case None
      with False gl show ?thesis
        by (simp add: load_loop.simps [of env _ s] same)
    next
      case (Some s')
      have "load_loop env g' s' = load_loop env g s'"
        by (rule "1.IH" [OF False gl [symmetric] refl Some "1.prems"])
      with False gl Some show ?thesis
        by (simp add: load_loop.simps [of env _ s] same)
    qed
  qed
qed

lemma load_loop_events:
  assumes "load_loop env g s = Some t"
    and "filter_calls (events s) = [] \<and> grid_writes (events s) = []"
  shows "filter_calls (events t) = [] \<and> grid_writes (events t) = []"
  using assms
  by (rule load_loop_invariant) (auto dest: load_view_events)

lemma load_loop_complete:
  assumes "load_loop env g s = Some t"
    and "\<forall>d\<in>set (g_dataList s). complete d"
  shows "\<forall>d\<in>set (g_dataList t). complete d"
  using assms
proof (rule load_loop_invariant)
  fix s s' :: "('a, 'b, 'c) loader"
  assume "\<forall>d\<in>set (g_dataList s). complete d" and "load_view env g s = Some s'"
  then show "\<forall>d\<in>set (g_dataList s'). complete d"
    using load_view_dataList [of env g s s'] by auto
qed auto

subsection \<open>The results of CreateReconstructionData and CreateGridMatrixFromInput\<close>

lemma CreateReconstructionData_cases:
  assumes "CreateReconstructionData env g = Some (ok, dl, out)"
  shows "(ok \<longleftrightarrow> dl \<noteq> []) \<and> (\<forall>d\<in>set dl. complete d) \<and>
         filter_calls out = [] \<and> grid_writes out = []"
proof (cases "files env (g_pathFolder g @ backslash @ g_depthMapContainer g)")
  case None
  with assms show ?thesis
    by (auto simp: CreateReconstructionData_def Let_def filter_calls_append grid_writes_append
                   ShowInformation_silent)
next
  case dm: (Some dmapText)
  show ?thesis
  proof (cases "files env (g_pathFolder g @ backslash @ g_KRTContainer g)")
    case None
    with assms dm show ?thesis
      by (auto simp: CreateReconstructionData_def Let_def filter_calls_append
                     grid_writes_append ShowInformation_silent)
  next
    case (Some krtText)
    let ?s0 = "\<lparr>depthMapContainer = open_stream dmapText,
                matrixContainer = open_stream krtText,
                depthMapPath = [], matrixPath = [], g_dataList = [], events = []\<rparr>
               :: ('a, 'b, 'c) loader"
    from assms dm Some obtain s where loop: "load_loop env g ?s0 = Some s"
      and dl: "dl = g_dataList s" and ok: "ok \<longleftrightarrow> g_dataList s \<noteq> []"
      and out: "out = ShowInformation g ''Read depth map and matrix files...'' @ events s
                  @ (if ok then ShowInformation g (to_string_size env (length (g_dataList s))
                            @ '' depth map have been loaded.'') else [])"
      by (auto simp: CreateReconstructionData_def Let_def split: Option.bind_splits if_splits)
    have "filter_calls (events s) = [] \<and> grid_writes (events s) = []"
      using loop by (rule load_loop_events) simp
    moreover have "\<forall>d\<in>set (g_dataList s). complete d"
      using loop by (rule load_loop_complete) simp
    ultimately show ?thesis
      using dl ok out
      by (simp add: filter_calls_append grid_writes_append ShowInformation_silent)
  qed
qed

lemma CreateReconstructionData_verbose:
  "map_option (\<lambda>(ok, dl, out). (ok, dl, quiet out))
       (CreateReconstructionData env (g\<lparr>verbose := v\<rparr>))
     = map_option (\<lambda>(ok, dl, out). (ok, dl, quiet out)) (CreateReconstructionData env g)"
proof -
  have "load_loop env (g\<lparr>verbose := v\<rparr>) s = load_loop env g s"
    for s :: "('a, 'b, 'c) loader"
    by (rule load_loop_pathFolder) simp
  then show ?thesis
    by (auto simp: CreateReconstructionData_def Let_def quiet_append ShowInformation_silent
             split: option.splits Option.bind_splits)
qed

lemma CreateGridMatrixFromInput_None:
  "CreateGridMatrixFromInput env g = None \<longleftrightarrow>
     length (g_gridVecX g) < 3 \<or> length (g_gridVecY g) < 3 \<or> length (g_gridVecZ g) < 3"
  by (auto simp: CreateGridMatrixFromInput_def Let_def subscript_def)

lemma CreateGridMatrixFromInput_events:
  "CreateGridMatrixFromInput env g = Some (m, out) \<Longrightarrow>
     filter_calls out = [] \<and> grid_writes out = [] \<and> quiet out = []"
  by (auto simp: CreateGridMatrixFromInput_def Let_def subscript_def ShowInformation_silent
           split: if_splits)

lemma CreateGridMatrixFromInput_verbose:
  "map_option fst (CreateGridMatrixFromInput env (g\<lparr>verbose := v\<rparr>))
     = map_option fst (CreateGridMatrixFromInput env g)"
  by (auto simp: CreateGridMatrixFromInput_def Let_def subscript_def)

lemma CreateGridMatrixFromInput_entries:
  assumes "CreateGridMatrixFromInput env g = Some (m, out)"
  shows "row4 m 0 = [g_gridVecX g ! 0, g_gridVecX g ! 1, g_gridVecX g ! 2, 0]"
    and "row4 m 1 = [g_gridVecY g ! 0, g_gridVecY g ! 1, g_gridVecY g ! 2, 0]"
    and "row4 m 2 = [g_gridVecZ g ! 0, g_gridVecZ g ! 1, g_gridVecZ g ! 2, 0]"
    and "row4 m 3 = [0, 0, 0, 1]"
  using assms
  by (auto simp: CreateGridMatrixFromInput_def Let_def subscript_def row4_def SetElement_def
                 Identity_def split: if_splits)

subsection \<open>The runs of main\<close>

lemma main_args_fail:
  "ReadArguments env g = Some (False, out) \<Longrightarrow> main env g = Some (EXIT_FAILURE, out)"
  by (simp add: main_def)

lemma main_data_fail:
  assumes "ReadArguments env g = Some (True, out0)"
    and "CreateReconstructionData env g = Some (False, dl, out1)"
  shows "main env g = Some (EXIT_FAILURE,
           out0 @ ShowInformation g ''---START---'' @ out1
             @ [Cerr (''Error during ReconstructionData construction'' @ endl)])"
  using assms by (simp add: main_def Let_def)

text \<open>The three ways in which main returns.\<close>

lemma main_cases:
  assumes "main env g = Some (code, out)"
  obtains
    (args) "ReadArguments env g = Some (False, out)" "code = EXIT_FAILURE"
  | (data) out0 dl out1 where
      "ReadArguments env g = Some (True, out0)"
      "CreateReconstructionData env g = Some (False, dl, out1)"
      "code = EXIT_FAILURE"
      "filter_calls out = []" "grid_writes out = []"
  | (run) out0 dl out1 m out2 dims spacing origin where
      "ReadArguments env g = Some (True, out0)"
      "CreateReconstructionData env g = Some (True, dl, out1)"
      "CreateGridMatrixFromInput env g = Some (m, out2)"
      "array3 (g_gridDims g) = Some dims"
      "array3 (g_gridSpacing g) = Some spacing"
      "array3 (g_gridOrigin g) = Some origin"
      "code = EXIT_SUCCESS"
      "filter_calls out =
         [\<lparr>UseCuda = \<not> noCuda g, RayPotentialRho = rayPotentialRho g,
           RayPotentialThickness = rayPotentialThick g,
           InputData = \<lparr>Dimensions = dims, Spacing = spacing, Origin = origin\<rparr>,
           DataList = dl, GridMatrix = m\<rparr>]"
      "grid_writes out =
         [(g_outputGridFilename g,
           TransformFilter env m (GetOutput env
             \<lparr>UseCuda = \<not> noCuda g, RayPotentialRho = rayPotentialRho g,
              RayPotentialThickness = rayPotentialThick g,
              InputData = \<lparr>Dimensions = dims, Spacing = spacing, Origin = origin\<rparr>,
              DataList = dl, GridMatrix = m\<rparr>))]"
proof (cases "ReadArguments env g")
  case None
  with assms show ?thesis by (simp add: main_def)
next
  case (Some a)
  then obtain argsOk out0 where ra: "ReadArguments env g = Some (argsOk, out0)"
    by (cases a) auto
  show ?thesis
  proof (cases argsOk)
    case False
    with ra assms args show ?thesis by (simp add: main_def)
  next
    case True
    with ra have ra: "ReadArguments env g = Some (True, out0)"
      by simp
    show ?thesis
    proof (cases "CreateReconstructionData env g")
      case None
      with ra assms show ?thesis by (simp add: main_def)
    next
      case (Some b)
      then obtain dataOk dl out1 where
        crd: "CreateReconstructionData env g = Some (dataOk, dl, out1)"
        by (cases b) auto
      have silent0: "filter_calls out0 = [] \<and> grid_writes out0 = []"
        using ra by (rule ReadArguments_silent)
      have silent1: "filter_calls out1 = [] \<and> grid_writes out1 = []"
        using CreateReconstructionData_cases [OF crd] by simp
      show ?thesis
      proof (cases dataOk)
        case False
        with ra crd assms silent0 silent1 show ?thesis
          by (intro data [of out0 dl out1])
             (auto simp: main_def filter_calls_append grid_writes_append ShowInformation_silent)
      next
        case True
        with crd have crd: "CreateReconstructionData env g = Some (True, dl, out1)"
          by simp
        from ra crd assms obtain m out2 dims spacing origin where
          cgm: "CreateGridMatrixFromInput env g = Some (m, out2)"
          and arrays: "array3 (g_gridDims g) = Some dims" "array3 (g_gridSpacing g) = Some spacing"
            "array3 (g_gridOrigin g) = Some origin"
          by (auto simp: main_def Let_def split: Option.bind_splits)
        have silent2: "filter_calls out2 = [] \<and> grid_writes out2 = []"
          using CreateGridMatrixFromInput_events [OF cgm] by simp
        from ra crd cgm arrays assms silent0 silent1 silent2 show ?thesis
          by (intro run [of out0 dl out1 m out2 dims spacing origin])
             (auto simp: main_def Let_def filter_calls_append grid_writes_append
                         ShowInformation_silent)
      qed
    qed
  qed
qed

text \<open>main.cxx itself does not look at the ray-potential parameters: the results of its
  own functions, and so the exit code of a run, do not depend on them.\<close>

lemma ReadArguments_ray:
  "ReadArguments env (g\<lparr>rayPotentialThick := t, rayPotentialRho := r\<rparr>) = ReadArguments env g"
  by (simp add: ReadArguments_def AreVectorsOrthogonal_def)

lemma CreateReconstructionData_ray:
  "CreateReconstructionData env (g\<lparr>rayPotentialThick := t, rayPotentialRho := r\<rparr>)
     = CreateReconstructionData env g"
proof -
  have "load_loop env (g\<lparr>rayPotentialThick := t, rayPotentialRho := r\<rparr>) s = load_loop env g s"
    for s :: "('a, 'b, 'c) loader"
    by (rule load_loop_pathFolder) simp
  then show ?thesis
    by (auto simp: CreateReconstructionData_def ShowInformation_def Let_def
             split: option.splits Option.bind_splits)
qed

lemma CreateGridMatrixFromInput_ray:
  "CreateGridMatrixFromInput env (g\<lparr>rayPotentialThick := t, rayPotentialRho := r\<rparr>)
     = CreateGridMatrixFromInput env g"
  by (simp add: CreateGridMatrixFromInput_def ShowInformation_def)

lemma main_exit_code:
  "map_option fst (main env g) =
     (case ReadArguments env g of
        None \<Rightarrow> None
      | Some (argsOk, out0) \<Rightarrow>
          if \<not> argsOk then Some EXIT_FAILURE
          else (case CreateReconstructionData env g of
                  None \<Rightarrow> None
                | Some (dataOk, dl, out1) \<Rightarrow>
                    if \<not> dataOk then Some EXIT_FAILURE
                    else if CreateGridMatrixFromInput env g = None \<or>
                            array3 (g_gridDims g) = None \<or>
                            array3 (g_gridSpacing g) = None \<or>
                            array3 (g_gridOrigin g) = None
                         then None else Some EXIT_SUCCESS))"
  by (auto simp: main_def Let_def split: option.splits Option.bind_splits)

lemma main_exit_code_ray:
  "map_option fst (main env (g\<lparr>rayPotentialThick := t, rayPotentialRho := r\<rparr>))
     = map_option fst (main env g)"
  unfolding main_exit_code ReadArguments_ray CreateReconstructionData_ray
    CreateGridMatrixFromInput_ray
  by (simp cong: if_cong option.case_cong)

text \<open>The exit code and the events other than output on \<open>std::cout\<close>, from the results
  of the three functions.\<close>

lemma quiet_simps:
  "quiet [] = []"
  "quiet (e # es) = (if is_Cout e then quiet es else e # quiet es)"
  by (simp_all add: quiet_def)

lemma observable_main:
  "observable (main env g) =
     (case ReadArguments env g of
        None \<Rightarrow> None
      | Some (argsOk, out0) \<Rightarrow>
          if \<not> argsOk then Some (EXIT_FAILURE, quiet out0)
          else (case map_option (\<lambda>(ok, dl, out). (ok, dl, quiet out))
                       (CreateReconstructionData env g) of
                  None \<Rightarrow> None
                | Some (dataOk, dl, q1) \<Rightarrow>
                    if \<not> dataOk
                    then Some (EXIT_FAILURE, quiet out0 @ q1 @
                           [Cerr (''Error during ReconstructionData construction'' @ endl)])
                    else (case (map_option fst (CreateGridMatrixFromInput env g),
                                array3 (g_gridDims g), array3 (g_gridSpacing g),
                                array3 (g_gridOrigin g)) of
                            (Some m, Some dims, Some spacing, Some origin) \<Rightarrow>
                              let f = \<lparr>UseCuda = \<not> noCuda g,
                                       RayPotentialRho = rayPotentialRho g,
                                       RayPotentialThickness = rayPotentialThick g,
                                       InputData = \<lparr>Dimensions = dims, Spacing = spacing,
                                                    Origin = origin\<rparr>,
                                       DataList = dl, GridMatrix = m\<rparr>
                              in Some (EXIT_SUCCESS, quiet out0 @ q1 @
                                   [FilterUpdate f,
                                    GridWrite (g_outputGridFilename g)
                                      (TransformFilter env m (GetOutput env f))])
                          | _ \<Rightarrow> None)))"
proof (cases "ReadArguments env g")
  case None
  then show ?thesis by (simp add: main_def observable_def)
next
  case (Some a)
  then obtain argsOk out0 where ra: "ReadArguments env g = Some (argsOk, out0)"
    by (cases a) auto
  show ?thesis
  proof (cases "CreateReconstructionData env g")
    case None
    with ra show ?thesis by (simp add: main_def observable_def)
  next
    case (Some b)
    then obtain dataOk dl out1 where
      crd: "CreateReconstructionData env g = Some (dataOk, dl, out1)"
      by (cases b) auto
    show ?thesis
    proof (cases "CreateGridMatrixFromInput env g")
      case None
      with ra crd show ?thesis
        by (simp add: main_def observable_def quiet_append ShowInformation_silent quiet_simps)
    next
      case (Some c)
      then obtain m out2 where cgm: "CreateGridMatrixFromInput env g = Some (m, out2)"
        by (cases c) auto
      have "quiet out2 = []"
        using CreateGridMatrixFromInput_events [OF cgm] by simp
      with ra crd cgm show ?thesis
        by (auto simp: main_def observable_def Let_def quiet_append ShowInformation_silent
                       quiet_simps
                 split: option.splits)
    qed
  qed
qed

lemma observable_main_verbose:
  "observable (main env (g\<lparr>verbose := v\<rparr>)) = observable (main env g)"
  unfolding observable_main ReadArguments_verbose CreateReconstructionData_verbose
    CreateGridMatrixFromInput_verbose
  by (simp cong: if_cong option.case_cong)

text \<open>The equations that evaluate a run on given files.\<close>

lemmas run_defs =
  main_def ReadArguments_def AreVectorsOrthogonal_def array3_eq CreateGridMatrixFromInput_def
  CreateReconstructionData_def load_loop.simps load_view_def ShowInformation_def
  SplitString_def SplitString_loop.simps getline_def open_stream_def subscript_last_def
  subscript_def ReadKrtdFile_def read_rows_def read_row_def upt_0_3 upt_0_4
  new_ReconstructionData_def SetDepthMap_def SetMatrixK_def SetMatrixTR_def
  example_env_def example_globals_def example_files_def example_numbers_def
  backslash_def endl_def EXIT_SUCCESS_def EXIT_FAILURE_def

subsection \<open>Argument validation\<close>

text \<open>C1, as stated: the run proceeds past argument validation exactly when the three
  pairwise dot products of the direction vectors are zero. This fails: the vectors of the
  sample run are orthogonal, and without an output file name \<open>ReadArguments\<close> still
  returns false and main exits with \<open>EXIT_FAILURE\<close>.\<close>

theorem orthogonal_vectors_rejected_without_output_name:
  "Dot (1, 0, 0) (0, 1, 0) = (0::real) \<and> Dot (0, 1, 0) (0, 0, 1) = (0::real) \<and>
   Dot (0, 0, 1) (1, 0, 0) = (0::real) \<and>
   g_gridVecX (example_globals\<lparr>g_outputGridFilename := []\<rparr>) = [1, 0, 0] \<and>
   g_gridVecY (example_globals\<lparr>g_outputGridFilename := []\<rparr>) = [0, 1, 0] \<and>
   g_gridVecZ (example_globals\<lparr>g_outputGridFilename := []\<rparr>) = [0, 0, 1] \<and>
   ReadArguments example_env (example_globals\<lparr>g_outputGridFilename := []\<rparr>)
     = Some (False, [Cerr (''Error arguments.'' @ endl), Cerr ''usage'']) \<and>
   main example_env (example_globals\<lparr>g_outputGridFilename := []\<rparr>)
     = Some (EXIT_FAILURE, [Cerr (''Error arguments.'' @ endl), Cerr ''usage''])"
  by (simp add: run_defs)

text \<open>C1, amended: when each direction vector has at least three components,
  \<open>ReadArguments\<close> returns true if and only if the parser succeeded without \<open>--help\<close>, the
  output file name and the two container names are not empty, and the three dot products
  that \<open>AreVectorsOrthogonal\<close> computes are equal to zero; when it does not return true,
  main exits with \<open>EXIT_FAILURE\<close> and neither the reconstruction filter nor the grid
  writer is called.\<close>

theorem arguments_accepted_iff:
  assumes "3 \<le> length (g_gridVecX g)" "3 \<le> length (g_gridVecY g)" "3 \<le> length (g_gridVecZ g)"
  shows "((\<exists>out. ReadArguments env g = Some (True, out)) \<longleftrightarrow>
            parse_result g \<noteq> 0 \<and> \<not> help_flag g \<and>
            g_outputGridFilename g \<noteq> [] \<and> g_depthMapContainer g \<noteq> [] \<and>
            g_KRTContainer g \<noteq> [] \<and>
            Dot (g_gridVecX g ! 0, g_gridVecX g ! 1, g_gridVecX g ! 2)
                (g_gridVecY g ! 0, g_gridVecY g ! 1, g_gridVecY g ! 2) = 0 \<and>
            Dot (g_gridVecY g ! 0, g_gridVecY g ! 1, g_gridVecY g ! 2)
                (g_gridVecZ g ! 0, g_gridVecZ g ! 1, g_gridVecZ g ! 2) = 0 \<and>
            Dot (g_gridVecZ g ! 0, g_gridVecZ g ! 1, g_gridVecZ g ! 2)
                (g_gridVecX g ! 0, g_gridVecX g ! 1, g_gridVecX g ! 2) = 0)
       \<and> ((\<nexists>out. ReadArguments env g = Some (True, out)) \<longrightarrow>
            (\<exists>out. main env g = Some (EXIT_FAILURE, out) \<and>
                   filter_calls out = [] \<and> grid_writes out = []))"
proof -
  note orth = AreVectorsOrthogonal_Some [OF assms]
  have iff: "(\<exists>out. ReadArguments env g = Some (True, out)) \<longleftrightarrow>
            parse_result g \<noteq> 0 \<and> \<not> help_flag g \<and>
            g_outputGridFilename g \<noteq> [] \<and> g_depthMapContainer g \<noteq> [] \<and>
            g_KRTContainer g \<noteq> [] \<and>
            Dot (g_gridVecX g ! 0, g_gridVecX g ! 1, g_gridVecX g ! 2)
                (g_gridVecY g ! 0, g_gridVecY g ! 1, g_gridVecY g ! 2) = 0 \<and>
            Dot (g_gridVecY g ! 0, g_gridVecY g ! 1, g_gridVecY g ! 2)
                (g_gridVecZ g ! 0, g_gridVecZ g ! 1, g_gridVecZ g ! 2) = 0 \<and>
            Dot (g_gridVecZ g ! 0, g_gridVecZ g ! 1, g_gridVecZ g ! 2)
                (g_gridVecX g ! 0, g_gridVecX g ! 1, g_gridVecX g ! 2) = 0"
    by (auto simp: ReadArguments_def orth simp del: Dot.simps)
  have "\<exists>ok out. ReadArguments env g = Some (ok, out)"
    by (auto simp: ReadArguments_def orth simp del: Dot.simps)
  then obtain ok out where ra: "ReadArguments env g = Some (ok, out)"
    by blast
  have "\<exists>out. main env g = Some (EXIT_FAILURE, out) \<and> filter_calls out = [] \<and> grid_writes out = []"
    if "\<nexists>out. ReadArguments env g = Some (True, out)"
  proof -
    from that ra have ra': "ReadArguments env g = Some (False, out)"
      by (cases ok) auto
    then show ?thesis
      using main_args_fail [OF ra'] ReadArguments_silent [OF ra'] by simp
  qed
  with iff show ?thesis by blast
qed

text \<open>The instance of the specification: with \<open>X = (1, 0, 0)\<close> and \<open>Y = (1, 1, 0)\<close> the
  run fails before any voxel work.\<close>

theorem arguments_accepted_iff_witness:
  "3 \<le> length (g_gridVecX (example_globals\<lparr>g_gridVecY := [1, 1, 0]\<rparr>)) \<and>
   Dot (1, 0, 0) (1, 1, 0) = (1::real) \<and>
   (\<exists>out. main example_env (example_globals\<lparr>g_gridVecY := [1, 1, 0]\<rparr>)
            = Some (EXIT_FAILURE, out) \<and> filter_calls out = [] \<and> grid_writes out = [])"
  using arguments_accepted_iff
    [where g = "example_globals\<lparr>g_gridVecY := [1, 1, 0]\<rparr>" and env = example_env]
  by (simp add: example_globals_def)

subsection \<open>Ray-potential parameters\<close>

text \<open>Every update of the reconstruction filter carries the supplied parameters
  unchanged.\<close>

lemma main_filter_parameters:
  assumes "main env g = Some (code, out)" and "f \<in> set (filter_calls out)"
  shows "RayPotentialThickness f = rayPotentialThick g \<and>
         RayPotentialRho f = rayPotentialRho g \<and> UseCuda f = (\<not> noCuda g)"
  using assms by (cases rule: main_cases) (auto simp: ReadArguments_silent)

text \<open>C2: a pair of parameters with a thickness or a rho \<open>\<le> 0\<close> is rejected by \<open>configure\<close>
  with \<open>InvalidParameter\<close>; in every run of main that reaches the reconstruction filter
  with such a supplied value, the update of the filter is rejected with
  \<open>InvalidParameter\<close>, whatever the voxel work is, so before any evaluation of the ray
  potential; and an update that does perform the voxel work was given a thickness and a
  rho that are not \<open>\<le> 0\<close>.\<close>

theorem nonpositive_parameters_rejected:
  "(t \<le> 0 \<or> r \<le> 0 \<longrightarrow> configure t r par = Inl InvalidParameter)
   \<and> (\<forall>code out f. main env g = Some (code, out) \<and> f \<in> set (filter_calls out) \<and>
          (rayPotentialThick g \<le> 0 \<or> rayPotentialRho g \<le> 0) \<longrightarrow>
          Update voxel_work f = Inl InvalidParameter)
   \<and> (\<forall>code out f result. main env g = Some (code, out) \<and> f \<in> set (filter_calls out) \<and>
          Update voxel_work f = Inr result \<longrightarrow>
          \<not> rayPotentialThick g \<le> 0 \<and> \<not> rayPotentialRho g \<le> 0)"
proof -
  have rejected: "Update voxel_work f = Inl InvalidParameter"
    if "main env g = Some (code, out)" "f \<in> set (filter_calls out)"
      "rayPotentialThick g \<le> 0 \<or> rayPotentialRho g \<le> 0" for code out f
    using main_filter_parameters [OF that(1,2)] that(3)
    by (simp add: Update_def configure_def)
  have accepted: "\<not> rayPotentialThick g \<le> 0 \<and> \<not> rayPotentialRho g \<le> 0"
    if "main env g = Some (code, out)" "f \<in> set (filter_calls out)"
      "Update voxel_work f = Inr result" for code out f result
    using rejected [OF that(1,2)] that(3) by auto
  from rejected accepted show ?thesis
    by (simp add: configure_def) blast
qed

text \<open>The sample run with thickness \<open>0\<close> and rho \<open>-1\<close>: the update is rejected. The sample
  run itself, with thickness \<open>2\<close> and rho \<open>3\<close>: the voxel work is done.\<close>

theorem nonpositive_parameters_rejected_witness:
  "configure (0::real) (- 1) False = Inl InvalidParameter \<and>
   (\<exists>out f. main example_env
               (example_globals\<lparr>rayPotentialThick := 0, rayPotentialRho := - 1\<rparr>)
             = Some (EXIT_SUCCESS, out) \<and>
           filter_calls out = [f] \<and>
           Update (\<lambda>p grid basis views. length views) f = Inl InvalidParameter) \<and>
   (\<exists>out f. main example_env example_globals = Some (EXIT_SUCCESS, out) \<and>
           filter_calls out = [f] \<and>
           Update (\<lambda>p grid basis views. length views) f = Inr 1) \<and>
   \<not> rayPotentialThick example_globals \<le> 0 \<and> \<not> rayPotentialRho example_globals \<le> 0"
proof -
  let ?bad = "example_globals\<lparr>rayPotentialThick := 0, rayPotentialRho := - 1\<rparr>"
  let ?work = "\<lambda>(p :: real ray_potential_parameters) (grid :: real vtkImageData)
                  (basis :: real vtkMatrix) (views :: (real, string) ReconstructionData list).
                 length views"
  obtain out f where bad: "main example_env ?bad = Some (EXIT_SUCCESS, out)"
    and f: "filter_calls out = [f]"
    by (simp add: run_defs)
  from nonpositive_parameters_rejected
    [where env = example_env and g = ?bad and voxel_work = ?work
       and t = "0::real" and r = "- 1" and par = False] bad f
  have 1: "Update ?work f = Inl InvalidParameter"
    by (simp add: example_globals_def)
  obtain out' f' where good: "main example_env example_globals = Some (EXIT_SUCCESS, out')"
    and f': "filter_calls out' = [f']" and worked: "Update ?work f' = Inr 1"
    by (simp add: run_defs Update_def configure_def run_def basis_orthogonal_def
          complete_def SetElement_def Identity_def)
  from nonpositive_parameters_rejected
    [where env = example_env and g = example_globals and voxel_work = ?work
       and t = "0::real" and r = "- 1" and par = False] good f' worked
  have 2: "\<not> rayPotentialThick example_globals \<le> 0 \<and> \<not> rayPotentialRho example_globals \<le> 0"
    by (metis list.set_intros(1))
  from nonpositive_parameters_rejected
    [where env = example_env and g = ?bad and voxel_work = ?work
       and t = "0::real" and r = "- 1" and par = False]
  have 3: "configure (0::real) (- 1) False = Inl InvalidParameter"
    by simp
  from 1 2 3 bad f good f' worked show ?thesis
    by blast
qed

subsection \<open>Loading the views\<close>

text \<open>C3: when the arguments are accepted and the list of views is empty after
  \<open>CreateReconstructionData\<close>, that function has returned false, main exits with
  \<open>EXIT_FAILURE\<close>, the reconstruction filter is not called and no grid is written.\<close>

theorem no_views_no_reconstruction:
  assumes "ReadArguments env g = Some (True, out0)"
    and "CreateReconstructionData env g = Some (ok, [], out1)"
  shows "\<not> ok \<and>
         (\<exists>out. main env g = Some (EXIT_FAILURE, out) \<and>
                filter_calls out = [] \<and> grid_writes out = [])"
proof -
  from CreateReconstructionData_cases [OF assms(2)]
  have ok: "\<not> ok" and silent1: "filter_calls out1 = []" "grid_writes out1 = []"
    by simp_all
  from assms(2) ok have "CreateReconstructionData env g = Some (False, [], out1)"
    by simp
  from main_data_fail [OF assms(1) this] ReadArguments_silent [OF assms(1)] silent1 ok
  show ?thesis
    by (simp add: filter_calls_append grid_writes_append ShowInformation_silent)
qed

text \<open>The sample folder without its calibration file: no view is loaded.\<close>

theorem no_views_no_reconstruction_witness:
  "\<exists>out0 ok out1 out.
     ReadArguments (example_env\<lparr>files := example_files(''data'' @ backslash @ ''view0.krtd'' := None)\<rparr>)
       example_globals = Some (True, out0) \<and>
     CreateReconstructionData
       (example_env\<lparr>files := example_files(''data'' @ backslash @ ''view0.krtd'' := None)\<rparr>)
       example_globals = Some (ok, [], out1) \<and>
     main (example_env\<lparr>files := example_files(''data'' @ backslash @ ''view0.krtd'' := None)\<rparr>)
       example_globals = Some (EXIT_FAILURE, out) \<and>
     filter_calls out = [] \<and> grid_writes out = []"
proof -
  let ?env = "example_env\<lparr>files := example_files(''data'' @ backslash @ ''view0.krtd'' := None)\<rparr>"
  have ra: "ReadArguments ?env example_globals = Some (True, [])"
    by (simp add: run_defs)
  have crd: "CreateReconstructionData ?env example_globals =
      Some (False, [], [Cerr (''Unable to open krtd file : data'' @ backslash @ ''view0.krtd'' @ endl)])"
    by (simp add: run_defs)
  from no_views_no_reconstruction [OF ra crd] ra crd show ?thesis
    by blast
qed

text \<open>C4: every view in the list that \<open>CreateReconstructionData\<close> builds, and so every
  view in the list the reconstruction filter is updated with, has its depth map, its
  matrix \<open>K\<close> and its matrix \<open>TR\<close> set; and a pass through the loop body whose calibration
  file does not open leaves the list as it was.\<close>

theorem loaded_views_complete:
  "(\<forall>ok dl out. CreateReconstructionData env g = Some (ok, dl, out) \<longrightarrow>
        (\<forall>d\<in>set dl. complete d))
   \<and> (\<forall>code out f. main env g = Some (code, out) \<and> f \<in> set (filter_calls out) \<longrightarrow>
        (\<forall>d\<in>set (DataList f). complete d))
   \<and> (\<forall>s s'. load_view env g s = Some s' \<and> files env (matrixPath s') = None \<longrightarrow>
        g_dataList s' = g_dataList s)"
proof -
  have a: "\<forall>d\<in>set dl. complete d"
    if "CreateReconstructionData env g = Some (ok, dl, out)" for ok dl out
    using CreateReconstructionData_cases [OF that] by simp
  have b: "\<forall>d\<in>set (DataList f). complete d"
    if "main env g = Some (code, out)" and "f \<in> set (filter_calls out)" for code out f
    using that
  proof (cases rule: main_cases)
    case args
    with that(2) show ?thesis by (simp add: ReadArguments_silent)
  next
    case (data out0 dl out1)
    with that(2) show ?thesis by simp
  next
    case (run out0 dl out1 m out2 dims spacing origin)
    with that(2) a show ?thesis by auto
  qed
  have c: "g_dataList s' = g_dataList s"
    if "load_view env g s = Some s'" and "files env (matrixPath s') = None"
    for s s' :: "('a, 'b, 'c) loader"
    using that by (rule load_view_skips)
  from a b c show ?thesis by blast
qed

text \<open>The view of the sample run is complete; without the calibration file the loop body
  leaves the list empty.\<close>

theorem loaded_views_complete_witness:
  "(\<exists>out f d. main example_env example_globals = Some (EXIT_SUCCESS, out) \<and>
       filter_calls out = [f] \<and> DataList f = [d] \<and> complete d) \<and>
   (\<exists>s'. load_view
       (example_env\<lparr>files := example_files(''data'' @ backslash @ ''view0.krtd'' := None)\<rparr>)
       example_globals
       \<lparr>depthMapContainer = \<lparr>buf = [], eofbit = False\<rparr>,
        matrixContainer = open_stream (''krtd/view0.krtd'' @ endl),
        depthMapPath = ''maps/view0.vti'', matrixPath = [], g_dataList = [], events = []\<rparr>
       = Some s' \<and>
     matrixPath s' = ''data'' @ backslash @ ''view0.krtd'' \<and> g_dataList s' = [])"
proof -
  let ?env = "example_env\<lparr>files := example_files(''data'' @ backslash @ ''view0.krtd'' := None)\<rparr>"
  let ?s = "\<lparr>depthMapContainer = \<lparr>buf = [], eofbit = False\<rparr>,
        matrixContainer = open_stream (''krtd/view0.krtd'' @ endl),
        depthMapPath = ''maps/view0.vti'', matrixPath = [], g_dataList = [], events = []\<rparr>
        :: (real, string, unit) loader"
  obtain out f d where run: "main example_env example_globals = Some (EXIT_SUCCESS, out)"
    and f: "filter_calls out = [f]" and d: "DataList f = [d]"
    by (simp add: run_defs)
  from loaded_views_complete [where env = example_env and g = example_globals] run f d
  have "complete d"
    by (metis list.set_intros(1))
  moreover obtain s' where lv: "load_view ?env example_globals ?s = Some s'"
    and mp: "matrixPath s' = ''data'' @ backslash @ ''view0.krtd''"
    by (simp add: run_defs)
  have "files ?env (matrixPath s') = None"
    by (simp add: mp example_env_def)
  with loaded_views_complete [where env = ?env and g = example_globals] lv
  have "g_dataList s' = g_dataList ?s"
    by blast
  ultimately show ?thesis
    using run f d lv mp by simp
qed

subsection \<open>Failure of main\<close>

text \<open>C5: when \<open>ReadArguments\<close> returns false (parser, file names or orthogonality), or
  returns true and \<open>CreateReconstructionData\<close> returns false, main exits with
  \<open>EXIT_FAILURE\<close> and has called neither the reconstruction filter nor the grid
  writer.\<close>

theorem failed_validation_exits_without_output:
  assumes "ReadArguments env g = Some (False, out0) \<or>
           (ReadArguments env g = Some (True, out0) \<and>
            CreateReconstructionData env g = Some (False, dl, out1))"
  shows "\<exists>out. main env g = Some (EXIT_FAILURE, out) \<and>
               filter_calls out = [] \<and> grid_writes out = []"
  using assms
proof
  assume ra: "ReadArguments env g = Some (False, out0)"
  from main_args_fail [OF ra] ReadArguments_silent [OF ra] show ?thesis
    by simp
next
  assume "ReadArguments env g = Some (True, out0) \<and>
          CreateReconstructionData env g = Some (False, dl, out1)"
  then have ra: "ReadArguments env g = Some (True, out0)"
    and crd: "CreateReconstructionData env g = Some (False, dl, out1)"
    by simp_all
  from main_data_fail [OF ra crd] ReadArguments_silent [OF ra]
    CreateReconstructionData_cases [OF crd]
  show ?thesis
    by (simp add: filter_calls_append grid_writes_append ShowInformation_silent)
qed

text \<open>A basis that is not orthogonal, and a folder without container files.\<close>

theorem failed_validation_exits_without_output_witness:
  "(\<exists>out. ReadArguments example_env (example_globals\<lparr>g_gridVecZ := [1, 0, 1]\<rparr>)
            = Some (False, out)) \<and>
   (\<exists>out. main example_env (example_globals\<lparr>g_gridVecZ := [1, 0, 1]\<rparr>)
            = Some (EXIT_FAILURE, out) \<and> filter_calls out = [] \<and> grid_writes out = []) \<and>
   (\<exists>dl out. CreateReconstructionData (example_env\<lparr>files := Map.empty\<rparr>) example_globals
            = Some (False, dl, out)) \<and>
   (\<exists>out. main (example_env\<lparr>files := Map.empty\<rparr>) example_globals
            = Some (EXIT_FAILURE, out) \<and> filter_calls out = [] \<and> grid_writes out = [])"
proof -
  have ra: "ReadArguments example_env (example_globals\<lparr>g_gridVecZ := [1, 0, 1]\<rparr>)
      = Some (False, [Cerr (''Given vectors are not orthogonals'' @ endl)])"
    by (simp add: run_defs)
  have ra': "ReadArguments (example_env\<lparr>files := Map.empty\<rparr>) example_globals = Some (True, [])"
    by (simp add: run_defs)
  have crd: "CreateReconstructionData (example_env\<lparr>files := Map.empty\<rparr>) example_globals
      = Some (False, [],
          [Cerr (''Unable to open file which contains depth map or matrix path.'' @ endl)])"
    by (simp add: run_defs)
  from failed_validation_exits_without_output [OF disjI1, OF ra]
    failed_validation_exits_without_output [OF disjI2, OF conjI, OF ra' crd] ra crd
  show ?thesis
    by simp
qed

subsection \<open>The calibration file\<close>

text \<open>C6: after a call of \<open>ReadKrtdFile\<close> that returns true, the bottom row of the pose
  matrix is \<open>[0, 0, 0, 1]\<close>, whatever the file holds and whatever the matrix held
  before.\<close>

theorem pose_bottom_row:
  assumes "ReadKrtdFile env filename matrixK matrixTR = (True, K, TR, out)"
  shows "row4 TR 3 = [0, 0, 0, 1]"
  using assms by (rule ReadKrtdFile_bottom_row)

text \<open>The calibration file of the sample run.\<close>

theorem pose_bottom_row_witness:
  "\<exists>K TR out.
     ReadKrtdFile example_env (''data'' @ backslash @ ''view0.krtd'') Identity Identity
       = (True, K, TR, out) \<and>
     row4 TR 2 = [0, 0, 1, 5] \<and> row4 TR 3 = [0, 0, 0, 1]"
proof -
  obtain K TR out where
    r: "ReadKrtdFile example_env (''data'' @ backslash @ ''view0.krtd'') Identity Identity
          = (True, K, TR, out)"
    and r2: "row4 TR 2 = [0, 0, 1, 5]"
    by (simp add: run_defs row4_def SetElement_def Identity_def)
  from pose_bottom_row [OF r] r r2 show ?thesis
    by blast
qed

subsection \<open>The grid matrix\<close>

text \<open>C7: for direction vectors of at least three components \<open>CreateGridMatrixFromInput\<close>
  returns a matrix whose entry \<open>(i, j)\<close>, for \<open>i, j < 3\<close>, is component \<open>j\<close> of the
  \<open>i\<close>-th vector (\<open>X\<close>, \<open>Y\<close>, \<open>Z\<close>), and whose fourth row and fourth column are those
  of the identity.\<close>

theorem grid_matrix_entries:
  assumes "3 \<le> length (g_gridVecX g)" "3 \<le> length (g_gridVecY g)" "3 \<le> length (g_gridVecZ g)"
  shows "\<exists>m out. CreateGridMatrixFromInput env g = Some (m, out) \<and>
           (\<forall>i<3. \<forall>j<3. m i j = [g_gridVecX g, g_gridVecY g, g_gridVecZ g] ! i ! j) \<and>
           row4 m 3 = [0, 0, 0, 1] \<and> col4 m 3 = [0, 0, 0, 1]"
proof -
  from assms obtain m out where cgm: "CreateGridMatrixFromInput env g = Some (m, out)"
    using CreateGridMatrixFromInput_None [of env g] by (cases "CreateGridMatrixFromInput env g") auto
  note rows = CreateGridMatrixFromInput_entries [OF cgm]
  have "m i j = [g_gridVecX g, g_gridVecY g, g_gridVecZ g] ! i ! j" if "i < 3" "j < 3" for i j
  proof -
    from that have "i = 0 \<or> i = 1 \<or> i = 2" "j = 0 \<or> j = 1 \<or> j = 2"
      by auto
    with rows show ?thesis
      by (auto simp: row4_def)
  qed
  moreover from rows have "col4 m 3 = [0, 0, 0, 1]"
    by (simp add: row4_def col4_def)
  ultimately show ?thesis
    using cgm rows(4) by blast
qed

text \<open>The sample run with \<open>X = (0, 2, 0)\<close>.\<close>

theorem grid_matrix_entries_witness:
  "3 \<le> length (g_gridVecX (example_globals\<lparr>g_gridVecX := [0, 2, 0]\<rparr>)) \<and>
   (\<exists>m out. CreateGridMatrixFromInput example_env (example_globals\<lparr>g_gridVecX := [0, 2, 0]\<rparr>)
              = Some (m, out) \<and>
      row4 m 0 = [0, 2, 0, 0] \<and> row4 m 1 = [0, 1, 0, 0] \<and> row4 m 2 = [0, 0, 1, 0] \<and>
      row4 m 3 = [0, 0, 0, 1])"
proof -
  from grid_matrix_entries
    [where g = "example_globals\<lparr>g_gridVecX := [0, 2, 0]\<rparr>" and env = example_env]
  obtain m out where
    "CreateGridMatrixFromInput example_env (example_globals\<lparr>g_gridVecX := [0, 2, 0]\<rparr>)
       = Some (m, out)"
    and e: "\<forall>i<3. \<forall>j<3. m i j = [[0, 2, 0], [0, 1, 0], [0, 0, 1]] ! i ! j"
    and r: "row4 m 3 = [0, 0, 0, 1]" "col4 m 3 = [0, 0, 0, 1]"
    by (auto simp: example_globals_def)
  moreover from e have "m 0 0 = 0" "m 0 1 = 2" "m 0 2 = 0" "m 1 0 = 0" "m 1 1 = 1" "m 1 2 = 0"
    "m 2 0 = 0" "m 2 1 = 0" "m 2 2 = 1"
    by simp_all
  moreover from r have "m 0 3 = 0" "m 1 3 = 0" "m 2 3 = 0"
    by (simp_all add: col4_def)
  ultimately show ?thesis
    by (simp add: row4_def example_globals_def)
qed

text \<open>C8: \<open>ReadKrtdFile\<close> returns false exactly when the file does not open; a file that
  opens is accepted whatever its content.\<close>

theorem ReadKrtdFile_false_iff_not_open:
  "(fst (ReadKrtdFile env filename matrixK matrixTR) = False) = (files env filename = None)"
  using ReadKrtdFile_result [of env filename matrixK matrixTR] by simp

text \<open>A file that holds no number is accepted; a file that is not there is not.\<close>

theorem ReadKrtdFile_false_iff_not_open_witness:
  "files (example_env\<lparr>files := [''bad.krtd'' \<mapsto> ''not a matrix'']\<rparr>) ''bad.krtd''
     = Some ''not a matrix'' \<and>
   fst (ReadKrtdFile (example_env\<lparr>files := [''bad.krtd'' \<mapsto> ''not a matrix'']\<rparr>)
          ''bad.krtd'' Identity Identity) = True \<and>
   fst (ReadKrtdFile (example_env\<lparr>files := [''bad.krtd'' \<mapsto> ''not a matrix'']\<rparr>)
          ''missing.krtd'' Identity Identity) = False"
  using ReadKrtdFile_false_iff_not_open
      [where env = "example_env\<lparr>files := [''bad.krtd'' \<mapsto> ''not a matrix'']\<rparr>"
         and filename = "''bad.krtd''" and matrixK = Identity and matrixTR = Identity]
    ReadKrtdFile_false_iff_not_open
      [where env = "example_env\<lparr>files := [''bad.krtd'' \<mapsto> ''not a matrix'']\<rparr>"
         and filename = "''missing.krtd''" and matrixK = Identity and matrixTR = Identity]
  by simp

subsection \<open>Subscripts out of range\<close>

text \<open>C9: \<open>AreVectorsOrthogonal\<close> and \<open>CreateGridMatrixFromInput\<close> read components 0, 1
  and 2 of all three direction vectors, so each of them reaches a subscript out of range
  exactly when one of the vectors has fewer than three components; \<open>ReadArguments\<close> does
  not check the lengths: once the parser and the file names pass, such vectors take it
  (and main) to the subscript out of range.\<close>

theorem short_direction_vector_out_of_range:
  "(AreVectorsOrthogonal g = None \<longleftrightarrow>
      length (g_gridVecX g) < 3 \<or> length (g_gridVecY g) < 3 \<or> length (g_gridVecZ g) < 3)
   \<and> (CreateGridMatrixFromInput env g = None \<longleftrightarrow>
      length (g_gridVecX g) < 3 \<or> length (g_gridVecY g) < 3 \<or> length (g_gridVecZ g) < 3)
   \<and> (parse_result g \<noteq> 0 \<and> \<not> help_flag g \<and> g_outputGridFilename g \<noteq> [] \<and>
       g_depthMapContainer g \<noteq> [] \<and> g_KRTContainer g \<noteq> [] \<and>
       (length (g_gridVecX g) < 3 \<or> length (g_gridVecY g) < 3 \<or> length (g_gridVecZ g) < 3)
       \<longrightarrow> ReadArguments env' g = None \<and> main env' g = None)"
proof -
  have "ReadArguments env' g = None \<and> main env' g = None"
    if "parse_result g \<noteq> 0" "\<not> help_flag g" "g_outputGridFilename g \<noteq> []"
      "g_depthMapContainer g \<noteq> []" "g_KRTContainer g \<noteq> []"
      "length (g_gridVecX g) < 3 \<or> length (g_gridVecY g) < 3 \<or> length (g_gridVecZ g) < 3"
  proof -
    from that(6) have "AreVectorsOrthogonal g = None"
      by (simp add: AreVectorsOrthogonal_None)
    with that(1-5) have "ReadArguments env' g = None"
      by (simp add: ReadArguments_def)
    then show ?thesis
      by (simp add: main_def)
  qed
  then show ?thesis
    using AreVectorsOrthogonal_None [of g] CreateGridMatrixFromInput_None [of env g]
    by blast
qed

text \<open>\<open>--gridVecX 1 0\<close>: two values only.\<close>

theorem short_direction_vector_out_of_range_witness:
  "length (g_gridVecX (example_globals\<lparr>g_gridVecX := [1, 0]\<rparr>)) < 3 \<and>
   AreVectorsOrthogonal (example_globals\<lparr>g_gridVecX := [1, 0]\<rparr>) = None \<and>
   CreateGridMatrixFromInput example_env (example_globals\<lparr>g_gridVecX := [1, 0]\<rparr>) = None \<and>
   ReadArguments example_env (example_globals\<lparr>g_gridVecX := [1, 0]\<rparr>) = None \<and>
   main example_env (example_globals\<lparr>g_gridVecX := [1, 0]\<rparr>) = None"
  using short_direction_vector_out_of_range
    [where g = "example_globals\<lparr>g_gridVecX := [1, 0]\<rparr>" and env = example_env
       and env' = example_env]
  by (simp add: example_globals_def)

subsection \<open>The verbose flag\<close>

text \<open>C10: two runs that differ only in \<open>verbose\<close> have the same exit code and the same
  events apart from output on \<open>std::cout\<close>: the same messages on \<open>std::cerr\<close>, the same
  state of the reconstruction filter at its update (parameters, input grid, data list,
  grid matrix) and the same file name and grid at the writer. The grid matrix and the
  loaded data list are the same as well.\<close>

theorem verbose_only_affects_cout:
  "observable (main env (g\<lparr>verbose := v\<rparr>)) = observable (main env g)
   \<and> map_option fst (CreateGridMatrixFromInput env (g\<lparr>verbose := v\<rparr>))
       = map_option fst (CreateGridMatrixFromInput env g)
   \<and> map_option (\<lambda>(ok, dl, out). (ok, dl, quiet out))
         (CreateReconstructionData env (g\<lparr>verbose := v\<rparr>))
       = map_option (\<lambda>(ok, dl, out). (ok, dl, quiet out)) (CreateReconstructionData env g)"
  by (simp only: observable_main_verbose CreateGridMatrixFromInput_verbose
        CreateReconstructionData_verbose simp_thms)

text \<open>The sample run emits eleven events in verbose mode and two otherwise.\<close>

theorem verbose_only_affects_cout_witness:
  "observable (main example_env (example_globals\<lparr>verbose := True\<rparr>))
     = observable (main example_env example_globals) \<and>
   map_option (length \<circ> snd) (main example_env (example_globals\<lparr>verbose := True\<rparr>)) = Some 11 \<and>
   map_option (length \<circ> snd) (main example_env example_globals) = Some 2"
proof -
  have "map_option (length \<circ> snd) (main example_env (example_globals\<lparr>verbose := True\<rparr>)) = Some 11"
    by (simp add: run_defs)
  moreover have "map_option (length \<circ> snd) (main example_env example_globals) = Some 2"
    by (simp add: run_defs)
  ultimately show ?thesis
    using verbose_only_affects_cout [where env = example_env and g = example_globals and v = True]
    by simp
qed

end
